theory Spec2Isabelle
  imports Main
begin

section \<open>Python values, dictionaries and exceptions\<close>

text \<open>
  A Python \<open>float\<close> is an IEEE 754 binary64 number. \<open>Finite m e\<close> is the number
  \<open>m * 2 ^ e\<close>, \<open>Infinite s\<close> is an infinity (the negative one when \<open>s\<close> holds) and
  \<open>NaN\<close> is not-a-number. The sign of a zero is not kept: no operation of the validator
  depends on it. The numbers a float can hold are those of \<open>is_binary64\<close>.
\<close>

datatype pyfloat =
    Finite int int
  | Infinite bool
  | NaN

text \<open>
  The header and the payload of a JSON web token are JSON objects. Their values are
  modelled by \<open>pyval\<close>: \<open>None\<close>, booleans, integers, floats, strings, lists and
  nested objects. A \<open>char\<close> stands for one character of a Python \<open>str\<close>.
\<close>

datatype pyval =
    PNone
  | PBool bool
  | PInt int
  | PFloat pyfloat
  | PStr string
  | PList "pyval list"
  | PDict "(string \<times> pyval) list"

type_synonym pydict = "string \<rightharpoonup> pyval"

text \<open>
  Exceptions of the Python runtime and of the \<open>jwt\<close> library. The three classes that
  \<open>validate_client_assertion\<close> names in its \<open>except\<close> clauses are constructors of
  their own; \<open>OtherError\<close> is any other exception class an external call raises (for
  instance \<open>DecodeError\<close> or \<open>InvalidSignatureError\<close>), with the name of the class.
\<close>

datatype py_exception =
    ExpiredSignatureError
  | ImmatureSignatureError
  | InvalidAudienceError
  | KeyError string
  | TypeError
  | OverflowError
  | OtherError string

text \<open>The exception classes of \<open>python_ishare.exceptions\<close> that the module raises.\<close>

datatype ishare_exception =
    IShareInvalidGrantType
  | IShareInvalidScope
  | IShareInvalidClientAssertionType
  | IShareInvalidTokenAlgorithm
  | IShareInvalidTokenType
  | IShareInvalidCertificate
  | IShareTokenExpired
  | IShareTokenNotValidYet
  | IShareInvalidAudience
  | IShareInvalidClientId
  | IShareInvalidTokenIssuerOrSubscriber
  | IShareInvalidTokenJTI
  | IShareTokenExpirationInvalid

text \<open>
  What a call of \<open>validate_client_assertion\<close> raises: one of the module's own
  exceptions (\<open>Rejected\<close>), or an exception of the runtime or of an external call
  that no \<open>except\<close> clause catches (\<open>Unclassified\<close>).
\<close>

datatype failure =
    Rejected ishare_exception
  | Unclassified py_exception

text \<open>\<open>d[k]\<close>: raises \<open>KeyError\<close> when the key is absent.\<close>

definition py_getitem :: "pydict \<Rightarrow> string \<Rightarrow> py_exception + pyval" where
  "py_getitem d k = (case d k of None \<Rightarrow> Inl (KeyError k) | Some v \<Rightarrow> Inr v)"

text \<open>\<open>d.get(k, default)\<close>; \<open>d.get(k)\<close> is \<open>py_get d k PNone\<close>.\<close>

definition py_get :: "pydict \<Rightarrow> string \<Rightarrow> pyval \<Rightarrow> pyval" where
  "py_get d k dflt = (case d k of None \<Rightarrow> dflt | Some v \<Rightarrow> v)"

text \<open>\<open>len(v)\<close>: defined on strings, lists and dictionaries, a \<open>TypeError\<close> otherwise.\<close>

fun py_len :: "pyval \<Rightarrow> py_exception + nat" where
  "py_len (PStr s) = Inr (length s)"
| "py_len (PList xs) = Inr (length xs)"
| "py_len (PDict kvs) = Inr (length (remdups (map fst kvs)))"
| "py_len PNone = Inl TypeError"
| "py_len (PBool b) = Inl TypeError"
| "py_len (PInt i) = Inl TypeError"
| "py_len (PFloat f) = Inl TypeError"

text \<open>Truth value of a Python object, as \<open>not v\<close> tests it.\<close>

fun truthy :: "pyval \<Rightarrow> bool" where
  "truthy PNone = False"
| "truthy (PBool b) = b"
| "truthy (PInt i) = (i \<noteq> 0)"
| "truthy (PFloat (Finite m e)) = (m \<noteq> 0)"
| "truthy (PFloat (Infinite s)) = True"
| "truthy (PFloat NaN) = True"
| "truthy (PStr s) = (s \<noteq> [])"
| "truthy (PList xs) = (xs \<noteq> [])"
| "truthy (PDict kvs) = (kvs \<noteq> [])"

subsection \<open>Float arithmetic\<close>

text \<open>\<open>n.bit_length()\<close>: the number of binary digits of the absolute value of an \<open>int\<close>.\<close>

function bit_length :: "int \<Rightarrow> nat" where
  "bit_length n = (if n = 0 then 0 else Suc (bit_length (\<bar>n\<bar> div 2)))"
  by pat_completeness auto
termination
  by (relation "measure (\<lambda>n. nat \<bar>n\<bar>)") auto

declare bit_length.simps [simp del]

text \<open>
  The binary64 numbers: at most 53 significant bits, the exponent of the last bit
  between -1074 and 971.
\<close>

definition is_binary64 :: "pyfloat \<Rightarrow> bool" where
  "is_binary64 f =
     (case f of
        Finite m e \<Rightarrow> \<bar>m\<bar> < 2 ^ 53 \<and> - 1074 \<le> e \<and> e \<le> 971
      | Infinite s \<Rightarrow> True
      | NaN \<Rightarrow> True)"

text \<open>
  The binary64 number nearest to \<open>m * 2 ^ e\<close>, ties to the even significand, as IEEE 754
  arithmetic rounds an exact result: \<open>d\<close> low bits are dropped so that 53 bits are left
  and the exponent is not below -1074; a significand that rounds up to \<open>2 ^ 53\<close> is
  renormalised; a result of magnitude \<open>2 ^ 1024\<close> or more is an infinity.
\<close>

definition round_binary64 :: "int \<Rightarrow> int \<Rightarrow> pyfloat" where
  "round_binary64 m e =
     (let d = nat (max (int (bit_length m) - 53) (- 1074 - e));
          q = \<bar>m\<bar> div 2 ^ d;
          r = \<bar>m\<bar> mod 2 ^ d;
          q' = (if d = 0 then q
                else if 2 ^ (d - 1) < r \<or> (r = 2 ^ (d - 1) \<and> odd q) then q + 1
                else q) in
      if 1024 < int (bit_length q') + (e + int d) then Infinite (m < 0)
      else if q' = 2 ^ 53 then Finite (if m < 0 then - (2 ^ 52) else 2 ^ 52) (e + int d + 1)
      else Finite (if m < 0 then - q' else q') (e + int d))"

text \<open>\<open>a - b\<close> on floats.\<close>

fun float_sub :: "pyfloat \<Rightarrow> pyfloat \<Rightarrow> pyfloat" where
  "float_sub (Finite m1 e1) (Finite m2 e2) =
     (let e = min e1 e2 in
      round_binary64 (m1 * 2 ^ nat (e1 - e) - m2 * 2 ^ nat (e2 - e)) e)"
| "float_sub (Finite m e) (Infinite s) = Infinite (\<not> s)"
| "float_sub (Infinite s) (Finite m e) = Infinite s"
| "float_sub (Infinite s) (Infinite t) = (if s = t then NaN else Infinite s)"
| "float_sub NaN b = NaN"
| "float_sub (Finite m e) NaN = NaN"
| "float_sub (Infinite s) NaN = NaN"

text \<open>
  The conversion of an \<open>int\<close> operand of mixed arithmetic to a float: the nearest
  binary64 number, and an \<open>OverflowError\<close> when that is not finite.
\<close>

definition int_to_float :: "int \<Rightarrow> py_exception + pyfloat" where
  "int_to_float i =
     (case round_binary64 i 0 of
        Finite m e \<Rightarrow> Inr (Finite m e)
      | Infinite s \<Rightarrow> Inl OverflowError
      | NaN \<Rightarrow> Inl OverflowError)"

text \<open>\<open>f == n\<close> for a float and an \<open>int\<close>: the comparison is exact.\<close>

fun float_eq_int :: "pyfloat \<Rightarrow> int \<Rightarrow> bool" where
  "float_eq_int (Finite m e) n = (if 0 \<le> e then m * 2 ^ nat e = n else m = n * 2 ^ nat (- e))"
| "float_eq_int (Infinite s) n = False"
| "float_eq_int NaN n = False"

text \<open>
  The numbers among the values: \<open>int\<close>, \<open>bool\<close> (a subclass of \<open>int\<close>, with \<open>True\<close>
  as 1) and \<open>float\<close>.
\<close>

datatype number = NInt int | NFloat pyfloat

fun as_number :: "pyval \<Rightarrow> number option" where
  "as_number (PInt i) = Some (NInt i)"
| "as_number (PBool b) = Some (NInt (if b then 1 else 0))"
| "as_number (PFloat f) = Some (NFloat f)"
| "as_number PNone = None"
| "as_number (PStr s) = None"
| "as_number (PList xs) = None"
| "as_number (PDict kvs) = None"

text \<open>
  \<open>a - b\<close>: integer subtraction on two integers, float subtraction when a float is
  involved (an integer operand is converted first), a \<open>TypeError\<close> on every other
  pair of JSON values.
\<close>

fun number_sub :: "number \<Rightarrow> number \<Rightarrow> py_exception + pyval" where
  "number_sub (NInt x) (NInt y) = Inr (PInt (x - y))"
| "number_sub (NFloat f) (NFloat g) = Inr (PFloat (float_sub f g))"
| "number_sub (NInt x) (NFloat g) =
     (case int_to_float x of Inl e \<Rightarrow> Inl e | Inr f \<Rightarrow> Inr (PFloat (float_sub f g)))"
| "number_sub (NFloat f) (NInt y) =
     (case int_to_float y of Inl e \<Rightarrow> Inl e | Inr g \<Rightarrow> Inr (PFloat (float_sub f g)))"

definition py_sub :: "pyval \<Rightarrow> pyval \<Rightarrow> py_exception + pyval" where
  "py_sub a b =
     (case as_number a of
        None \<Rightarrow> Inl TypeError
      | Some x \<Rightarrow> (case as_number b of None \<Rightarrow> Inl TypeError | Some y \<Rightarrow> number_sub x y))"

text \<open>\<open>v != n\<close> for an \<open>int\<close> \<open>n\<close>: only a number can equal it.\<close>

definition py_ne_int :: "pyval \<Rightarrow> int \<Rightarrow> bool" where
  "py_ne_int v n =
     (case as_number v of
        None \<Rightarrow> True
      | Some (NInt i) \<Rightarrow> i \<noteq> n
      | Some (NFloat f) \<Rightarrow> \<not> float_eq_int f n)"

text \<open>
  \<open>v != s\<close> for a string \<open>s\<close>: a \<open>str\<close> equals only a \<open>str\<close> of the same
  characters, so every value of another type differs from it.
\<close>

definition py_ne_str :: "pyval \<Rightarrow> string \<Rightarrow> bool" where
  "py_ne_str v s = (v \<noteq> PStr s)"

section \<open>Regular expressions\<close>

text \<open>
  The fragment of Python's \<open>re\<close> syntax that the module's pattern uses: a literal
  character, \<open>.\<close> (any character but the newline), a character range \<open>[a-b]\<close>,
  concatenation and the bounded repetition \<open>r{m,n}\<close>. \<open>rmatch r s\<close> lists what is
  left of \<open>s\<close> after each way of matching \<open>r\<close> at its start; \<open>re.fullmatch\<close>
  finds a match when one of them leaves nothing.
\<close>

datatype regex =
    Lit char
  | AnyChar
  | CharRange char char
  | Cat regex regex
  | Repeat regex nat nat

primrec rmatch :: "regex \<Rightarrow> string \<Rightarrow> string list" where
  "rmatch (Lit c) s = (case s of [] \<Rightarrow> [] | x # xs \<Rightarrow> if x = c then [xs] else [])"
| "rmatch AnyChar s = (case s of [] \<Rightarrow> [] | x # xs \<Rightarrow> if x = CHR 0x0A then [] else [xs])"
| "rmatch (CharRange lo hi) s =
     (case s of
        [] \<Rightarrow> []
      | x # xs \<Rightarrow>
          if (of_char lo :: nat) \<le> of_char x \<and> (of_char x :: nat) \<le> of_char hi then [xs] else [])"
| "rmatch (Cat r1 r2) s = concat (map (rmatch r2) (rmatch r1 s))"
| "rmatch (Repeat r m n) s =
     concat (map (\<lambda>k. ((\<lambda>ss. concat (map (rmatch r) ss)) ^^ k) [s]) [m..<Suc n])"

definition re_fullmatch :: "regex \<Rightarrow> string \<Rightarrow> bool" where
  "re_fullmatch r s = ([] \<in> set (rmatch r s))"

section \<open>The identifier format validator\<close>

text \<open>The pattern \<^verbatim>\<open>EU.EORI.[A-Z]{2}[0-9]{1,15}\<close> of \<open>is_valid_eori_number\<close>.\<close>

definition pattern :: regex where
  "pattern =
     Cat (Lit CHR ''E'') (Cat (Lit CHR ''U'') (Cat AnyChar
    (Cat (Lit CHR ''E'') (Cat (Lit CHR ''O'') (Cat (Lit CHR ''R'') (Cat (Lit CHR ''I'') (Cat AnyChar
    (Cat (Repeat (CharRange CHR ''A'' CHR ''Z'') 2 2)
         (Repeat (CharRange CHR ''0'' CHR ''9'') 1 15)))))))))"

text \<open>\<open>eori_number\<close> is \<open>None\<close> for Python's \<open>None\<close>.\<close>

definition is_valid_eori_number :: "string option \<Rightarrow> bool \<Rightarrow> bool" where
  "is_valid_eori_number eori_number strict =
     (case eori_number of
        None \<Rightarrow> False
      | Some s \<Rightarrow>
          if s = [] then False
          else if \<not> strict then True
          else re_fullmatch pattern s)"

text \<open>
  The two character classes of the pattern, \<open>[A-Z]\<close> and \<open>[0-9]\<close>, as predicates on
  characters (by code point), used to describe the strings the pattern matches.
\<close>

definition upper :: "char \<Rightarrow> bool" where
  "upper c = (65 \<le> (of_char c :: nat) \<and> (of_char c :: nat) \<le> 90)"

definition digit :: "char \<Rightarrow> bool" where
  "digit c = (48 \<le> (of_char c :: nat) \<and> (of_char c :: nat) \<le> 57)"

section \<open>The assertion validator\<close>

definition ASSERTION_TYPE :: string where
  "ASSERTION_TYPE = ''urn:ietf:params:oauth:client-assertion-type:jwt-bearer''"

text \<open>
  The arguments of \<open>validate_client_assertion\<close>. \<open>strict_eori\<close> is \<open>None\<close> when the
  caller does not pass it; the function then takes its default, \<open>False\<close>.
\<close>

record request =
  client_id :: string
  client_assertion :: string
  audience :: string
  grant_type :: string
  scope :: string
  client_assertion_type :: string
  strict_eori :: "bool option"

text \<open>
  The functions the validator calls and this module does not define:
  \<open>jwt.get_unverified_header\<close>, and \<open>x5c_b64_to_certificate\<close> and \<open>decode_jwt\<close> of
  \<open>python_ishare.authentication\<close>. Each returns a value or raises. \<open>'c\<close> is the
  type of certificates; \<open>x5c_b64_to_certificate\<close> stands for the call with the list
  built from its result.
\<close>

record 'c collaborators =
  get_unverified_header :: "string \<Rightarrow> py_exception + pydict"
  x5c_b64_to_certificate :: "pyval \<Rightarrow> py_exception + 'c list"
  decode_jwt :: "string \<Rightarrow> 'c list \<Rightarrow> string \<Rightarrow> py_exception + pydict"

text \<open>The external calls a run makes, in order, each with its arguments.\<close>

datatype 'c call =
    Call_get_unverified_header string
  | Call_x5c_b64_to_certificate pyval
  | Call_decode_jwt string "'c list" string

type_synonym 'c run = "'c call list \<times> (failure + pydict)"

definition raise_ishare :: "'c call list \<Rightarrow> ishare_exception \<Rightarrow> 'c run" where
  "raise_ishare calls e = (calls, Inl (Rejected e))"

definition propagate :: "'c call list \<Rightarrow> py_exception \<Rightarrow> 'c run" where
  "propagate calls e = (calls, Inl (Unclassified e))"

text \<open>The \<open>except\<close> clauses around the call of \<open>decode_jwt\<close>.\<close>

fun except_clauses :: "'c call list \<Rightarrow> py_exception \<Rightarrow> 'c run" where
  "except_clauses calls ExpiredSignatureError = raise_ishare calls IShareTokenExpired"
| "except_clauses calls ImmatureSignatureError = raise_ishare calls IShareTokenNotValidYet"
| "except_clauses calls InvalidAudienceError = raise_ishare calls IShareInvalidAudience"
| "except_clauses calls (KeyError k) = propagate calls (KeyError k)"
| "except_clauses calls TypeError = propagate calls TypeError"
| "except_clauses calls OverflowError = propagate calls OverflowError"
| "except_clauses calls (OtherError n) = propagate calls (OtherError n)"

text \<open>
  \<open>validate_client_assertion\<close>, line by line. The result is the list of external
  calls made and what the function returns (\<open>Inr\<close>, the payload) or raises (\<open>Inl\<close>).
\<close>

definition validate_client_assertion :: "'c collaborators \<Rightarrow> request \<Rightarrow> 'c run" where
  "validate_client_assertion ext rq =
    (let strict = (case strict_eori rq of None \<Rightarrow> False | Some b \<Rightarrow> b) in
     if grant_type rq \<noteq> ''client_credentials'' then raise_ishare [] IShareInvalidGrantType
     else if scope rq \<noteq> ''iSHARE'' then raise_ishare [] IShareInvalidScope
     else if client_assertion_type rq \<noteq> ASSERTION_TYPE
       then raise_ishare [] IShareInvalidClientAssertionType
     else
      (let c1 = [Call_get_unverified_header (client_assertion rq)] in
      (case get_unverified_header ext (client_assertion rq) of
         Inl e \<Rightarrow> propagate c1 e
       | Inr headers \<Rightarrow>
      (case py_getitem headers ''alg'' of
         Inl e \<Rightarrow> propagate c1 e
       | Inr alg \<Rightarrow>
       if py_ne_str alg ''RS256'' then raise_ishare c1 IShareInvalidTokenAlgorithm
       else
      (case py_getitem headers ''typ'' of
         Inl e \<Rightarrow> propagate c1 e
       | Inr typ \<Rightarrow>
       if py_ne_str typ ''JWT'' then raise_ishare c1 IShareInvalidTokenType
       else
      (case py_getitem headers ''x5c'' of
         Inl e \<Rightarrow> propagate c1 e
       | Inr x5c \<Rightarrow>
       if x5c = PNone then raise_ishare c1 IShareInvalidCertificate
       else
      (case py_len x5c of
         Inl e \<Rightarrow> propagate c1 e
       | Inr n \<Rightarrow>
       if n < 1 then raise_ishare c1 IShareInvalidCertificate
       else
      (let c2 = c1 @ [Call_x5c_b64_to_certificate x5c] in
      (case x5c_b64_to_certificate ext x5c of
         Inl e \<Rightarrow> except_clauses c2 e
       | Inr certs \<Rightarrow>
      (let c3 = c2 @ [Call_decode_jwt (client_assertion rq) certs (audience rq)] in
      (case decode_jwt ext (client_assertion rq) certs (audience rq) of
         Inl e \<Rightarrow> except_clauses c3 e
       | Inr jwt_payload \<Rightarrow>
       if \<not> is_valid_eori_number (Some (client_id rq)) strict
         then raise_ishare c3 IShareInvalidClientId
       else if py_ne_str (py_get jwt_payload ''sub'' PNone) (client_id rq)
             \<or> py_ne_str (py_get jwt_payload ''iss'' PNone) (client_id rq)
         then raise_ishare c3 IShareInvalidTokenIssuerOrSubscriber
       else if \<not> truthy (py_get jwt_payload ''jti'' PNone)
         then raise_ishare c3 IShareInvalidTokenJTI
       else
      (let expires = py_get jwt_payload ''exp'' (PInt 0);
           issued = py_get jwt_payload ''iat'' (PInt 0) in
      (case py_sub expires issued of
         Inl e \<Rightarrow> propagate c3 e
       | Inr window \<Rightarrow>
       if py_ne_int window 30 then raise_ishare c3 IShareTokenExpirationInvalid
       else (c3, Inr jwt_payload))))))))))))))"

text \<open>The two components of a run.\<close>

definition calls_of :: "'c run \<Rightarrow> 'c call list" where
  "calls_of r = fst r"

definition outcome :: "'c run \<Rightarrow> failure + pydict" where
  "outcome r = snd r"

section \<open>Progress through the pipeline\<close>

text \<open>
  The steps of the validation pipeline, in the words of the specification: a request
  passes steps 1 to \<open>n\<close> when every check up to step \<open>n\<close> succeeds. The header, the
  \<open>x5c\<close> entry, the certificates and the payload are the values the run computes on
  the way.
\<close>

definition passes_steps_1_3 :: "request \<Rightarrow> bool" where
  "passes_steps_1_3 rq =
     (grant_type rq = ''client_credentials''
      \<and> scope rq = ''iSHARE''
      \<and> client_assertion_type rq = ASSERTION_TYPE)"

definition passes_steps_1_6 :: "'c collaborators \<Rightarrow> request \<Rightarrow> pydict \<Rightarrow> bool" where
  "passes_steps_1_6 ext rq headers =
     (passes_steps_1_3 rq
      \<and> get_unverified_header ext (client_assertion rq) = Inr headers
      \<and> headers ''alg'' = Some (PStr ''RS256'')
      \<and> headers ''typ'' = Some (PStr ''JWT''))"

definition has_entries :: "pyval \<Rightarrow> bool" where
  "has_entries x5c = (case py_len x5c of Inl e \<Rightarrow> False | Inr n \<Rightarrow> 1 \<le> n)"

definition passes_steps_1_7 :: "'c collaborators \<Rightarrow> request \<Rightarrow> pydict \<Rightarrow> pyval \<Rightarrow> bool" where
  "passes_steps_1_7 ext rq headers x5c =
     (passes_steps_1_6 ext rq headers \<and> headers ''x5c'' = Some x5c \<and> has_entries x5c)"

definition passes_steps_1_8 ::
  "'c collaborators \<Rightarrow> request \<Rightarrow> pydict \<Rightarrow> pyval \<Rightarrow> 'c list \<Rightarrow> pydict \<Rightarrow> bool" where
  "passes_steps_1_8 ext rq headers x5c certs payload =
     (passes_steps_1_7 ext rq headers x5c
      \<and> x5c_b64_to_certificate ext x5c = Inr certs
      \<and> decode_jwt ext (client_assertion rq) certs (audience rq) = Inr payload)"

definition passes_steps_1_9 ::
  "'c collaborators \<Rightarrow> request \<Rightarrow> pydict \<Rightarrow> pyval \<Rightarrow> 'c list \<Rightarrow> pydict \<Rightarrow> bool" where
  "passes_steps_1_9 ext rq headers x5c certs payload =
     (passes_steps_1_8 ext rq headers x5c certs payload
      \<and> is_valid_eori_number (Some (client_id rq)) (strict_eori rq = Some True))"

definition passes_steps_1_11 ::
  "'c collaborators \<Rightarrow> request \<Rightarrow> pydict \<Rightarrow> pyval \<Rightarrow> 'c list \<Rightarrow> pydict \<Rightarrow> bool" where
  "passes_steps_1_11 ext rq headers x5c certs payload =
     (passes_steps_1_9 ext rq headers x5c certs payload
      \<and> payload ''sub'' = Some (PStr (client_id rq))
      \<and> payload ''iss'' = Some (PStr (client_id rq))
      \<and> (case payload ''jti'' of None \<Rightarrow> False | Some jti \<Rightarrow> truthy jti))"


section \<open>Example inputs\<close>

definition example_request :: request where
  "example_request =
     \<lparr>client_id = ''EU.EORI.NL000000000000001'',
      client_assertion = ''eyJhbGciOiJSUzI1NiJ9.e30.c2ln'',
      audience = ''EU.EORI.NL000000000000002'',
      grant_type = ''client_credentials'',
      scope = ''iSHARE'',
      client_assertion_type = ''urn:ietf:params:oauth:client-assertion-type:jwt-bearer'',
      strict_eori = Some True\<rparr>"

definition example_headers :: pydict where
  "example_headers =
     [''alg'' \<mapsto> PStr ''RS256'', ''typ'' \<mapsto> PStr ''JWT'', ''x5c'' \<mapsto> PList [PStr ''MIIB'']]"

definition example_payload :: pydict where
  "example_payload =
     [''sub'' \<mapsto> PStr ''EU.EORI.NL000000000000001'',
      ''iss'' \<mapsto> PStr ''EU.EORI.NL000000000000001'',
      ''aud'' \<mapsto> PStr ''EU.EORI.NL000000000000002'',
      ''jti'' \<mapsto> PStr ''abc123'',
      ''iat'' \<mapsto> PInt 1000,
      ''exp'' \<mapsto> PInt 1030]"

text \<open>
  Collaborators that answer every call the same way: the header parser with \<open>parsed\<close>,
  the certificate decoder with one certificate, the claims decoder with \<open>decoded\<close>.
\<close>

definition example_collaborators ::
  "py_exception + pydict \<Rightarrow> py_exception + pydict \<Rightarrow> nat collaborators" where
  "example_collaborators parsed decoded =
     \<lparr>get_unverified_header = (\<lambda>token. parsed),
      x5c_b64_to_certificate = (\<lambda>x5c. Inr [0]),
      decode_jwt = (\<lambda>token certs aud. decoded)\<rparr>"

text \<open>
  A request whose identifier is no EORI number and that does not pass \<open>strict_eori\<close>, and
  a payload issued by that client.
\<close>

definition acme_request :: request where
  "acme_request = example_request\<lparr>client_id := ''acme'', strict_eori := None\<rparr>"

definition acme_payload :: pydict where
  "acme_payload = example_payload(''sub'' \<mapsto> PStr ''acme'', ''iss'' \<mapsto> PStr ''acme'')"

section \<open>Identifier format\<close>

text \<open>
  C8. An identifier that is absent (\<open>None\<close>) or empty is invalid whatever
  \<open>strict\<close> is, and with \<open>strict\<close> false every non-empty identifier is valid.
\<close>

theorem is_valid_eori_number_empty_and_lenient:
  "\<not> is_valid_eori_number None strict
   \<and> \<not> is_valid_eori_number (Some []) strict
   \<and> (s \<noteq> [] \<longrightarrow> is_valid_eori_number (Some s) False)"
  by (simp add: is_valid_eori_number_def)

theorem is_valid_eori_number_empty_and_lenient_witness:
  "\<not> is_valid_eori_number None True
   \<and> \<not> is_valid_eori_number (Some []) True
   \<and> ''not an EORI'' \<noteq> []
   \<and> is_valid_eori_number (Some ''not an EORI'') False"
  using is_valid_eori_number_empty_and_lenient [of True "''not an EORI''"] by simp

section \<open>The validation pipeline\<close>

lemma has_entries_len: "has_entries x \<Longrightarrow> x \<noteq> PNone \<and> (\<exists>n. py_len x = Inr n \<and> n \<noteq> 0)"
  by (cases x) (auto simp: has_entries_def)

lemma strict_default:
  "(case strict_eori rq of None \<Rightarrow> False | Some b \<Rightarrow> b) = (strict_eori rq = Some True)"
  by (cases "strict_eori rq") auto

lemma passes_steps_1_7D:
  assumes "passes_steps_1_7 ext rq headers x5c"
  shows "grant_type rq = ''client_credentials''" and "scope rq = ''iSHARE''"
    and "client_assertion_type rq = ASSERTION_TYPE"
    and "get_unverified_header ext (client_assertion rq) = Inr headers"
    and "py_getitem headers ''alg'' = Inr (PStr ''RS256'')"
    and "py_getitem headers ''typ'' = Inr (PStr ''JWT'')"
    and "py_getitem headers ''x5c'' = Inr x5c"
    and "x5c \<noteq> PNone" and "\<exists>n. py_len x5c = Inr n \<and> n \<noteq> 0"
  using assms has_entries_len [of x5c]
  by (simp_all add: passes_steps_1_7_def passes_steps_1_6_def passes_steps_1_3_def py_getitem_def)

lemma passes_steps_1_8D:
  assumes "passes_steps_1_8 ext rq headers x5c certs payload"
  shows "passes_steps_1_7 ext rq headers x5c"
    and "x5c_b64_to_certificate ext x5c = Inr certs"
    and "decode_jwt ext (client_assertion rq) certs (audience rq) = Inr payload"
  using assms by (simp_all add: passes_steps_1_8_def)

lemma passes_steps_1_11D:
  assumes "passes_steps_1_11 ext rq headers x5c certs payload"
  shows "passes_steps_1_8 ext rq headers x5c certs payload"
    and "is_valid_eori_number (Some (client_id rq)) (strict_eori rq = Some True)"
    and "py_get payload ''sub'' PNone = PStr (client_id rq)"
    and "py_get payload ''iss'' PNone = PStr (client_id rq)"
    and "truthy (py_get payload ''jti'' PNone)"
  using assms
  by (simp_all add: passes_steps_1_11_def passes_steps_1_9_def py_get_def split: option.splits)

text \<open>The example request, header and payload pass the steps they are used for.\<close>

lemma example_id_strictly_valid: "is_valid_eori_number (Some ''EU.EORI.NL000000000000001'') True"
  by code_simp

lemma example_passes_steps_1_7:
  "passes_steps_1_7 (example_collaborators (Inr example_headers) d) example_request
     example_headers (PList [PStr ''MIIB''])"
  by (simp add: passes_steps_1_7_def passes_steps_1_6_def passes_steps_1_3_def has_entries_def
        example_collaborators_def example_request_def example_headers_def ASSERTION_TYPE_def)

lemma example_passes_steps_1_11:
  assumes "p ''sub'' = Some (PStr ''EU.EORI.NL000000000000001'')"
    and "p ''iss'' = Some (PStr ''EU.EORI.NL000000000000001'')"
    and "p ''jti'' = Some (PStr ''abc123'')"
  shows "passes_steps_1_11 (example_collaborators (Inr example_headers) (Inr p))
     example_request example_headers (PList [PStr ''MIIB'']) [0] p"
  using example_id_strictly_valid assms
  by (simp add: passes_steps_1_11_def passes_steps_1_9_def passes_steps_1_8_def
        example_passes_steps_1_7)
    (simp add: example_collaborators_def example_request_def)

text \<open>What the run does once steps 1 to 8 have passed: steps 9 to 12 decide.\<close>

lemma run_after_step_8:
  assumes "passes_steps_1_8 ext rq headers x5c certs payload"
  shows "outcome (validate_client_assertion ext rq) =
      (if \<not> is_valid_eori_number (Some (client_id rq)) (strict_eori rq = Some True)
         then Inl (Rejected IShareInvalidClientId)
       else if py_ne_str (py_get payload ''sub'' PNone) (client_id rq)
             \<or> py_ne_str (py_get payload ''iss'' PNone) (client_id rq)
         then Inl (Rejected IShareInvalidTokenIssuerOrSubscriber)
       else if \<not> truthy (py_get payload ''jti'' PNone)
         then Inl (Rejected IShareInvalidTokenJTI)
       else (case py_sub (py_get payload ''exp'' (PInt 0)) (py_get payload ''iat'' (PInt 0)) of
               Inl e \<Rightarrow> Inl (Unclassified e)
             | Inr window \<Rightarrow>
                 if py_ne_int window 30 then Inl (Rejected IShareTokenExpirationInvalid)
                 else Inr payload))"
proof -
  note p7 = passes_steps_1_8D(1) [OF assms]
  from passes_steps_1_7D(9) [OF p7] obtain n where n: "py_len x5c = Inr n" "n \<noteq> 0"
    by blast
  have h: "\<not> py_ne_str (PStr s) s" for s
    by (simp add: py_ne_str_def)
  show ?thesis
    unfolding validate_client_assertion_def outcome_def
    by (simp add: passes_steps_1_7D(1-8) [OF p7] n passes_steps_1_8D(2,3) [OF assms] h
          strict_default Let_def raise_ishare_def propagate_def split: sum.splits)
qed

lemma run_after_step_11:
  assumes "passes_steps_1_11 ext rq headers x5c certs payload"
  shows "outcome (validate_client_assertion ext rq) =
      (case py_sub (py_get payload ''exp'' (PInt 0)) (py_get payload ''iat'' (PInt 0)) of
         Inl e \<Rightarrow> Inl (Unclassified e)
       | Inr window \<Rightarrow>
           if py_ne_int window 30 then Inl (Rejected IShareTokenExpirationInvalid)
           else Inr payload)"
  using passes_steps_1_11D(2-5) [OF assms]
  by (simp add: run_after_step_8 [OF passes_steps_1_11D(1) [OF assms]] py_ne_str_def)

lemma py_sub_ints: "py_sub (PInt e) (PInt i) = Inr (PInt (e - i))"
  by (simp add: py_sub_def)

lemma py_ne_int_PInt: "py_ne_int (PInt w) n = (w \<noteq> n)"
  by (simp add: py_ne_int_def)

text \<open>
  C4. For every request that reaches step 12 (steps 1 to 11 pass), validation returns the
  payload exactly when \<open>exp - iat\<close>, as Python computes the difference, equals 30, and
  raises \<open>IShareTokenExpirationInvalid\<close> exactly when the difference is a number other
  than 30, shorter (29) as well as longer (31). The difference is exact on integers and
  booleans and rounded to binary64 when a float is involved; an absent claim counts as 0.
  For integer claims this is \<open>e - i = 30\<close>.
\<close>

theorem lifetime_window_exactly_30:
  assumes "passes_steps_1_11 ext rq headers x5c certs payload"
  shows "(outcome (validate_client_assertion ext rq) = Inr payload
            \<longleftrightarrow> (\<exists>w. py_sub (py_get payload ''exp'' (PInt 0)) (py_get payload ''iat'' (PInt 0))
                        = Inr w \<and> \<not> py_ne_int w 30))
       \<and> (outcome (validate_client_assertion ext rq) = Inl (Rejected IShareTokenExpirationInvalid)
            \<longleftrightarrow> (\<exists>w. py_sub (py_get payload ''exp'' (PInt 0)) (py_get payload ''iat'' (PInt 0))
                        = Inr w \<and> py_ne_int w 30))
       \<and> (payload ''exp'' = Some (PInt e) \<and> payload ''iat'' = Some (PInt i)
            \<longrightarrow> (outcome (validate_client_assertion ext rq) = Inr payload \<longleftrightarrow> e - i = 30)
              \<and> (outcome (validate_client_assertion ext rq)
                   = Inl (Rejected IShareTokenExpirationInvalid) \<longleftrightarrow> e - i \<noteq> 30))"
proof -
  note run = run_after_step_11 [OF assms]
  have a: "outcome (validate_client_assertion ext rq) = Inr payload
      \<longleftrightarrow> (\<exists>w. py_sub (py_get payload ''exp'' (PInt 0)) (py_get payload ''iat'' (PInt 0))
                  = Inr w \<and> \<not> py_ne_int w 30)"
    unfolding run by (cases "py_sub (py_get payload ''exp'' (PInt 0)) (py_get payload ''iat'' (PInt 0))") auto
  have b: "outcome (validate_client_assertion ext rq) = Inl (Rejected IShareTokenExpirationInvalid)
      \<longleftrightarrow> (\<exists>w. py_sub (py_get payload ''exp'' (PInt 0)) (py_get payload ''iat'' (PInt 0))
                  = Inr w \<and> py_ne_int w 30)"
    unfolding run by (cases "py_sub (py_get payload ''exp'' (PInt 0)) (py_get payload ''iat'' (PInt 0))") auto
  have c: "(outcome (validate_client_assertion ext rq) = Inr payload \<longleftrightarrow> e - i = 30)
      \<and> (outcome (validate_client_assertion ext rq)
           = Inl (Rejected IShareTokenExpirationInvalid) \<longleftrightarrow> e - i \<noteq> 30)"
    if "payload ''exp'' = Some (PInt e)" "payload ''iat'' = Some (PInt i)"
    unfolding run by (simp add: that py_get_def py_sub_ints py_ne_int_PInt)
  from a b c show ?thesis
    by blast
qed

text \<open>
  Integer claims 1000 and 1030 are accepted, windows of 29 and 31 rejected. The floats
  1000.5 and 1030.5 are accepted; the floats nearest to 1000.1 and 1030.1 differ by
  \<open>263882790666239 * 2 ^ (- 43)\<close>, just under 30, and are rejected.
\<close>

theorem lifetime_window_exactly_30_witness:
  "passes_steps_1_11 (example_collaborators (Inr example_headers) (Inr example_payload))
     example_request example_headers (PList [PStr ''MIIB'']) [0] example_payload
   \<and> outcome (validate_client_assertion
        (example_collaborators (Inr example_headers) (Inr example_payload)) example_request)
      = Inr example_payload
   \<and> outcome (validate_client_assertion
        (example_collaborators (Inr example_headers) (Inr (example_payload(''exp'' \<mapsto> PInt 1029))))
        example_request)
      = Inl (Rejected IShareTokenExpirationInvalid)
   \<and> outcome (validate_client_assertion
        (example_collaborators (Inr example_headers) (Inr (example_payload(''exp'' \<mapsto> PInt 1031))))
        example_request)
      = Inl (Rejected IShareTokenExpirationInvalid)
   \<and> outcome (validate_client_assertion
        (example_collaborators (Inr example_headers)
           (Inr (example_payload(''iat'' \<mapsto> PFloat (Finite 2001 (- 1)),
                                 ''exp'' \<mapsto> PFloat (Finite 2061 (- 1))))))
        example_request)
      = Inr (example_payload(''iat'' \<mapsto> PFloat (Finite 2001 (- 1)),
                             ''exp'' \<mapsto> PFloat (Finite 2061 (- 1))))
   \<and> is_binary64 (Finite 8796972631510221 (- 43))
   \<and> is_binary64 (Finite 2265213855544115 (- 41))
   \<and> outcome (validate_client_assertion
        (example_collaborators (Inr example_headers)
           (Inr (example_payload(''iat'' \<mapsto> PFloat (Finite 8796972631510221 (- 43)),
                                 ''exp'' \<mapsto> PFloat (Finite 2265213855544115 (- 41))))))
        example_request)
      = Inl (Rejected IShareTokenExpirationInvalid)"
proof -
  have h: "passes_steps_1_11 (example_collaborators (Inr example_headers) (Inr example_payload))
     example_request example_headers (PList [PStr ''MIIB'']) [0] example_payload"
    by (rule example_passes_steps_1_11) (simp_all add: example_payload_def)
  have s: "passes_steps_1_11
     (example_collaborators (Inr example_headers) (Inr (example_payload(''exp'' \<mapsto> v))))
     example_request example_headers (PList [PStr ''MIIB'']) [0]
     (example_payload(''exp'' \<mapsto> v))" for v
    by (rule example_passes_steps_1_11) (simp_all add: example_payload_def)
  have f: "passes_steps_1_11
     (example_collaborators (Inr example_headers)
        (Inr (example_payload(''iat'' \<mapsto> u, ''exp'' \<mapsto> v))))
     example_request example_headers (PList [PStr ''MIIB'']) [0]
     (example_payload(''iat'' \<mapsto> u, ''exp'' \<mapsto> v))" for u v
    by (rule example_passes_steps_1_11) (simp_all add: example_payload_def)
  have e0: "example_payload ''exp'' = Some (PInt 1030)"
    and i0: "example_payload ''iat'' = Some (PInt 1000)"
    and e1: "(example_payload(''exp'' \<mapsto> PInt x)) ''exp'' = Some (PInt x)"
    and i1: "(example_payload(''exp'' \<mapsto> PInt x)) ''iat'' = Some (PInt 1000)" for x
    by (simp_all add: example_payload_def)
  have g: "py_get (example_payload(''iat'' \<mapsto> u, ''exp'' \<mapsto> v)) ''exp'' (PInt 0) = v"
      "py_get (example_payload(''iat'' \<mapsto> u, ''exp'' \<mapsto> v)) ''iat'' (PInt 0) = u" for u v
    by (simp_all add: py_get_def)
  have half: "py_sub (PFloat (Finite 2061 (- 1))) (PFloat (Finite 2001 (- 1)))
      = Inr (PFloat (Finite 60 (- 1)))"
    by code_simp
  have half30: "\<not> py_ne_int (PFloat (Finite 60 (- 1))) 30"
    by code_simp
  have tenth: "py_sub (PFloat (Finite 2265213855544115 (- 41)))
      (PFloat (Finite 8796972631510221 (- 43))) = Inr (PFloat (Finite 263882790666239 (- 43)))"
    by code_simp
  have tenth30: "py_ne_int (PFloat (Finite 263882790666239 (- 43))) 30"
    by code_simp
  have b: "is_binary64 (Finite 8796972631510221 (- 43))"
      "is_binary64 (Finite 2265213855544115 (- 41))"
    by (simp_all add: is_binary64_def)
  from lifetime_window_exactly_30 [OF h, of 1030 1000] e0 i0
  have r0: "outcome (validate_client_assertion
      (example_collaborators (Inr example_headers) (Inr example_payload)) example_request)
      = Inr example_payload"
    by simp
  from lifetime_window_exactly_30 [OF s [of "PInt 1029"], of 1029 1000] e1 i1
  have r1: "outcome (validate_client_assertion
      (example_collaborators (Inr example_headers) (Inr (example_payload(''exp'' \<mapsto> PInt 1029))))
      example_request) = Inl (Rejected IShareTokenExpirationInvalid)"
    by simp
  from lifetime_window_exactly_30 [OF s [of "PInt 1031"], of 1031 1000] e1 i1
  have r2: "outcome (validate_client_assertion
      (example_collaborators (Inr example_headers) (Inr (example_payload(''exp'' \<mapsto> PInt 1031))))
      example_request) = Inl (Rejected IShareTokenExpirationInvalid)"
    by simp
  from lifetime_window_exactly_30
    [OF f [of "PFloat (Finite 2001 (- 1))" "PFloat (Finite 2061 (- 1))"]]
    half half30
  have r3: "outcome (validate_client_assertion
      (example_collaborators (Inr example_headers)
         (Inr (example_payload(''iat'' \<mapsto> PFloat (Finite 2001 (- 1)),
                               ''exp'' \<mapsto> PFloat (Finite 2061 (- 1))))))
      example_request)
      = Inr (example_payload(''iat'' \<mapsto> PFloat (Finite 2001 (- 1)),
                             ''exp'' \<mapsto> PFloat (Finite 2061 (- 1))))"
    unfolding g by blast
  from lifetime_window_exactly_30
    [OF f [of "PFloat (Finite 8796972631510221 (- 43))" "PFloat (Finite 2265213855544115 (- 41))"]] tenth tenth30
  have r4: "outcome (validate_client_assertion
      (example_collaborators (Inr example_headers)
         (Inr (example_payload(''iat'' \<mapsto> PFloat (Finite 8796972631510221 (- 43)),
                               ''exp'' \<mapsto> PFloat (Finite 2265213855544115 (- 41))))))
      example_request) = Inl (Rejected IShareTokenExpirationInvalid)"
    unfolding g by blast
  from h r0 r1 r2 r3 r4 b show ?thesis
    by blast
qed

text \<open>
  C5. A request whose \<open>grant_type\<close> is not the literal \<open>client_credentials\<close> is
  rejected with \<open>IShareInvalidGrantType\<close> whatever the assertion and the collaborators
  are, and the run makes no external call: the assertion is never parsed and its
  signature is never checked.
\<close>

theorem grant_type_checked_before_any_external_call:
  assumes "grant_type rq \<noteq> ''client_credentials''"
  shows "outcome (validate_client_assertion ext rq) = Inl (Rejected IShareInvalidGrantType)
       \<and> calls_of (validate_client_assertion ext rq) = []"
  using assms
  by (simp add: validate_client_assertion_def outcome_def calls_of_def raise_ishare_def)

theorem grant_type_checked_before_any_external_call_witness:
  "grant_type (example_request\<lparr>grant_type := ''authorization_code''\<rparr>) \<noteq> ''client_credentials''
   \<and> outcome (validate_client_assertion
        (example_collaborators (Inr example_headers) (Inr example_payload))
        (example_request\<lparr>grant_type := ''authorization_code''\<rparr>))
      = Inl (Rejected IShareInvalidGrantType)
   \<and> calls_of (validate_client_assertion
        (example_collaborators (Inr example_headers) (Inr example_payload))
        (example_request\<lparr>grant_type := ''authorization_code''\<rparr>))
      = []
   \<and> grant_type (example_request\<lparr>grant_type := ''Client_Credentials'',
        client_assertion := ''not a token''\<rparr>) \<noteq> ''client_credentials''
   \<and> outcome (validate_client_assertion
        (example_collaborators (Inl (OtherError ''DecodeError'')) (Inl (OtherError ''DecodeError'')))
        (example_request\<lparr>grant_type := ''Client_Credentials'', client_assertion := ''not a token''\<rparr>))
      = Inl (Rejected IShareInvalidGrantType)"
proof -
  have g1: "grant_type (example_request\<lparr>grant_type := ''authorization_code''\<rparr>)
      \<noteq> ''client_credentials''"
    by simp
  have g2: "grant_type (example_request\<lparr>grant_type := ''Client_Credentials'',
        client_assertion := ''not a token''\<rparr>) \<noteq> ''client_credentials''"
    by simp
  from grant_type_checked_before_any_external_call [OF g1]
    grant_type_checked_before_any_external_call [OF g2] g1 g2
  show ?thesis by blast
qed

text \<open>
  C6. For a request that passes steps 1 to 9, validation raises
  \<open>IShareInvalidTokenIssuerOrSubscriber\<close> exactly when the payload's \<open>sub\<close> or its
  \<open>iss\<close> claim is absent or differs from \<open>client_id\<close>; it gets past step 10 only
  when both equal \<open>client_id\<close>.
\<close>

theorem sub_and_iss_must_equal_client_id:
  assumes "passes_steps_1_9 ext rq headers x5c certs payload"
  shows "outcome (validate_client_assertion ext rq)
           = Inl (Rejected IShareInvalidTokenIssuerOrSubscriber)
         \<longleftrightarrow> \<not> (payload ''sub'' = Some (PStr (client_id rq))
                \<and> payload ''iss'' = Some (PStr (client_id rq)))"
proof -
  from assms have p8: "passes_steps_1_8 ext rq headers x5c certs payload"
    and v: "is_valid_eori_number (Some (client_id rq)) (strict_eori rq = Some True)"
    by (simp_all add: passes_steps_1_9_def)
  note p7 = passes_steps_1_8D(1) [OF p8]
  from passes_steps_1_7D(9) [OF p7] obtain n where n: "py_len x5c = Inr n" "n \<noteq> 0"
    by blast
  have g: "py_ne_str (py_get payload k PNone) (client_id rq)
      \<longleftrightarrow> payload k \<noteq> Some (PStr (client_id rq))" for k
    by (simp add: py_ne_str_def py_get_def split: option.splits)
  have h: "\<not> py_ne_str (PStr s) s" for s
    by (simp add: py_ne_str_def)
  show ?thesis
    unfolding validate_client_assertion_def outcome_def
    by (auto simp add: passes_steps_1_7D(1-8) [OF p7] n passes_steps_1_8D(2,3) [OF p8] v g h
          strict_default Let_def raise_ishare_def propagate_def split: sum.splits)
qed


theorem sub_and_iss_must_equal_client_id_witness:
  "passes_steps_1_9 (example_collaborators (Inr example_headers) (Inr example_payload))
     (example_request\<lparr>client_id := ''EU.EORI.NL000000000000003''\<rparr>)
     example_headers (PList [PStr ''MIIB'']) [0] example_payload
   \<and> outcome (validate_client_assertion
        (example_collaborators (Inr example_headers) (Inr example_payload))
        (example_request\<lparr>client_id := ''EU.EORI.NL000000000000003''\<rparr>))
      = Inl (Rejected IShareInvalidTokenIssuerOrSubscriber)"
proof -
  have v: "is_valid_eori_number (Some ''EU.EORI.NL000000000000003'') True"
    by code_simp
  have p: "passes_steps_1_9 (example_collaborators (Inr example_headers) (Inr example_payload))
     (example_request\<lparr>client_id := ''EU.EORI.NL000000000000003''\<rparr>)
     example_headers (PList [PStr ''MIIB'']) [0] example_payload"
    using v
    by (simp add: passes_steps_1_9_def passes_steps_1_8_def passes_steps_1_7_def
          passes_steps_1_6_def passes_steps_1_3_def has_entries_def example_collaborators_def
          example_request_def example_headers_def ASSERTION_TYPE_def)
  have d: "example_payload ''sub'' \<noteq> Some (PStr ''EU.EORI.NL000000000000003'')"
    by (simp add: example_payload_def)
  from sub_and_iss_must_equal_client_id [OF p] p d show ?thesis
    by simp
qed

text \<open>
  C7. For a request that reaches step 8 and whose certificates decode, a failure of
  \<open>decode_jwt\<close> is mapped as follows: expired to \<open>IShareTokenExpired\<close>, not yet valid
  to \<open>IShareTokenNotValidYet\<close>, wrong audience to \<open>IShareInvalidAudience\<close>; every
  other failure propagates unchanged, outside the module's own exceptions.
\<close>

theorem decoder_failures_mapped_or_propagated:
  assumes "passes_steps_1_7 ext rq headers x5c"
    and "x5c_b64_to_certificate ext x5c = Inr certs"
    and "decode_jwt ext (client_assertion rq) certs (audience rq) = Inl e"
  shows "outcome (validate_client_assertion ext rq) =
          (if e = ExpiredSignatureError then Inl (Rejected IShareTokenExpired)
           else if e = ImmatureSignatureError then Inl (Rejected IShareTokenNotValidYet)
           else if e = InvalidAudienceError then Inl (Rejected IShareInvalidAudience)
           else Inl (Unclassified e))"
proof -
  from passes_steps_1_7D(9) [OF assms(1)] obtain n where n: "py_len x5c = Inr n" "n \<noteq> 0"
    by blast
  have h: "\<not> py_ne_str (PStr s) s" for s
    by (simp add: py_ne_str_def)
  have "validate_client_assertion ext rq =
      except_clauses [Call_get_unverified_header (client_assertion rq),
        Call_x5c_b64_to_certificate x5c,
        Call_decode_jwt (client_assertion rq) certs (audience rq)] e"
    unfolding validate_client_assertion_def
    by (simp add: passes_steps_1_7D(1-8) [OF assms(1)] n assms(2,3) h Let_def)
  then show ?thesis
    by (cases e) (simp_all add: outcome_def raise_ishare_def propagate_def)
qed

theorem decoder_failures_mapped_or_propagated_witness:
  "passes_steps_1_7 (example_collaborators (Inr example_headers) (Inl ExpiredSignatureError))
     example_request example_headers (PList [PStr ''MIIB''])
   \<and> outcome (validate_client_assertion
        (example_collaborators (Inr example_headers) (Inl ExpiredSignatureError)) example_request)
      = Inl (Rejected IShareTokenExpired)
   \<and> outcome (validate_client_assertion
        (example_collaborators (Inr example_headers) (Inl ImmatureSignatureError)) example_request)
      = Inl (Rejected IShareTokenNotValidYet)
   \<and> outcome (validate_client_assertion
        (example_collaborators (Inr example_headers) (Inl InvalidAudienceError)) example_request)
      = Inl (Rejected IShareInvalidAudience)
   \<and> outcome (validate_client_assertion
        (example_collaborators (Inr example_headers) (Inl (OtherError ''InvalidSignatureError'')))
        example_request)
      = Inl (Unclassified (OtherError ''InvalidSignatureError''))"
proof -
  have c: "x5c_b64_to_certificate (example_collaborators (Inr example_headers) d)
      (PList [PStr ''MIIB'']) = Inr [0]" for d
    by (simp add: example_collaborators_def)
  have d: "decode_jwt (example_collaborators (Inr example_headers) (Inl e))
      (client_assertion example_request) [0] (audience example_request) = Inl e" for e
    by (simp add: example_collaborators_def)
  from decoder_failures_mapped_or_propagated [OF example_passes_steps_1_7 c d, of ExpiredSignatureError]
    decoder_failures_mapped_or_propagated [OF example_passes_steps_1_7 c d, of ImmatureSignatureError]
    decoder_failures_mapped_or_propagated [OF example_passes_steps_1_7 c d, of InvalidAudienceError]
    decoder_failures_mapped_or_propagated [OF example_passes_steps_1_7 c d,
      of "OtherError ''InvalidSignatureError''"]
    example_passes_steps_1_7 [of "Inl ExpiredSignatureError"]
  show ?thesis by simp
qed

text \<open>
  C9. \<open>strict_eori\<close> defaults to \<open>False\<close>: a call that does not pass it runs as the
  call with \<open>strict_eori = False\<close>. When such a call passes steps 1 to 8 with a
  non-empty \<open>client_id\<close>, it passes the format check of step 9 whatever the identifier
  looks like: the run goes on to steps 10 to 12, which alone decide its outcome, and it
  returns the payload when they pass.
\<close>

theorem strict_eori_defaults_to_False:
  assumes "strict_eori rq = None"
  shows "validate_client_assertion ext rq
           = validate_client_assertion ext (rq\<lparr>strict_eori := Some False\<rparr>)
       \<and> (passes_steps_1_8 ext rq headers x5c certs payload \<and> client_id rq \<noteq> []
            \<longrightarrow> passes_steps_1_9 ext rq headers x5c certs payload
              \<and> outcome (validate_client_assertion ext rq) \<noteq> Inl (Rejected IShareInvalidClientId)
              \<and> outcome (validate_client_assertion ext rq) =
                  (if py_ne_str (py_get payload ''sub'' PNone) (client_id rq)
                       \<or> py_ne_str (py_get payload ''iss'' PNone) (client_id rq)
                     then Inl (Rejected IShareInvalidTokenIssuerOrSubscriber)
                   else if \<not> truthy (py_get payload ''jti'' PNone)
                     then Inl (Rejected IShareInvalidTokenJTI)
                   else (case py_sub (py_get payload ''exp'' (PInt 0))
                                (py_get payload ''iat'' (PInt 0)) of
                           Inl e \<Rightarrow> Inl (Unclassified e)
                         | Inr window \<Rightarrow>
                             if py_ne_int window 30
                               then Inl (Rejected IShareTokenExpirationInvalid)
                             else Inr payload)))
       \<and> (passes_steps_1_8 ext rq headers x5c certs payload \<and> client_id rq \<noteq> []
          \<and> payload ''sub'' = Some (PStr (client_id rq))
          \<and> payload ''iss'' = Some (PStr (client_id rq))
          \<and> truthy (py_get payload ''jti'' PNone)
          \<and> py_sub (py_get payload ''exp'' (PInt 0)) (py_get payload ''iat'' (PInt 0))
               = Inr (PInt 30)
            \<longrightarrow> outcome (validate_client_assertion ext rq) = Inr payload)"
proof -
  have eq: "validate_client_assertion ext rq
      = validate_client_assertion ext (rq\<lparr>strict_eori := Some False\<rparr>)"
    by (simp add: validate_client_assertion_def assms Let_def cong: if_cong sum.case_cong)
  have run: "outcome (validate_client_assertion ext rq) =
      (if py_ne_str (py_get payload ''sub'' PNone) (client_id rq)
           \<or> py_ne_str (py_get payload ''iss'' PNone) (client_id rq)
         then Inl (Rejected IShareInvalidTokenIssuerOrSubscriber)
       else if \<not> truthy (py_get payload ''jti'' PNone)
         then Inl (Rejected IShareInvalidTokenJTI)
       else (case py_sub (py_get payload ''exp'' (PInt 0)) (py_get payload ''iat'' (PInt 0)) of
               Inl e \<Rightarrow> Inl (Unclassified e)
             | Inr window \<Rightarrow>
                 if py_ne_int window 30 then Inl (Rejected IShareTokenExpirationInvalid)
                 else Inr payload))"
    and p9: "passes_steps_1_9 ext rq headers x5c certs payload"
    if p8: "passes_steps_1_8 ext rq headers x5c certs payload" and ne: "client_id rq \<noteq> []"
  proof -
    have v: "is_valid_eori_number (Some (client_id rq)) (strict_eori rq = Some True)"
      using ne by (simp add: is_valid_eori_number_def assms)
    show "outcome (validate_client_assertion ext rq) =
      (if py_ne_str (py_get payload ''sub'' PNone) (client_id rq)
           \<or> py_ne_str (py_get payload ''iss'' PNone) (client_id rq)
         then Inl (Rejected IShareInvalidTokenIssuerOrSubscriber)
       else if \<not> truthy (py_get payload ''jti'' PNone)
         then Inl (Rejected IShareInvalidTokenJTI)
       else (case py_sub (py_get payload ''exp'' (PInt 0)) (py_get payload ''iat'' (PInt 0)) of
               Inl e \<Rightarrow> Inl (Unclassified e)
             | Inr window \<Rightarrow>
                 if py_ne_int window 30 then Inl (Rejected IShareTokenExpirationInvalid)
                 else Inr payload))"
      unfolding run_after_step_8 [OF p8] using v by simp
    show "passes_steps_1_9 ext rq headers x5c certs payload"
      using p8 v by (simp add: passes_steps_1_9_def)
  qed
  have nr: "outcome (validate_client_assertion ext rq) \<noteq> Inl (Rejected IShareInvalidClientId)"
    if p8: "passes_steps_1_8 ext rq headers x5c certs payload" and ne: "client_id rq \<noteq> []"
    unfolding run [OF p8 ne] by (simp split: sum.splits)
  have acc: "outcome (validate_client_assertion ext rq) = Inr payload"
    if p8: "passes_steps_1_8 ext rq headers x5c certs payload" and ne: "client_id rq \<noteq> []"
      and c: "payload ''sub'' = Some (PStr (client_id rq))"
        "payload ''iss'' = Some (PStr (client_id rq))"
        "truthy (py_get payload ''jti'' PNone)"
        "py_sub (py_get payload ''exp'' (PInt 0)) (py_get payload ''iat'' (PInt 0)) = Inr (PInt 30)"
  proof -
    from c(1,2) have g: "py_get payload ''sub'' PNone = PStr (client_id rq)"
        "py_get payload ''iss'' PNone = PStr (client_id rq)"
      by (simp_all add: py_get_def)
    show ?thesis
      unfolding run [OF p8 ne] by (simp add: g c(3,4) py_ne_str_def py_ne_int_PInt)
  qed
  from eq run p9 nr acc show ?thesis
    by blast
qed

text \<open>
  A request with the identifier \<open>acme\<close>, which is no EORI number, and a payload issued
  by \<open>acme\<close>: without \<open>strict_eori\<close> the payload is returned, with \<open>strict_eori\<close> true
  the same request is rejected at step 9.
\<close>

theorem strict_eori_defaults_to_False_witness:
  "strict_eori acme_request = None
   \<and> passes_steps_1_8 (example_collaborators (Inr example_headers) (Inr acme_payload))
       acme_request example_headers (PList [PStr ''MIIB'']) [0] acme_payload
   \<and> client_id acme_request \<noteq> []
   \<and> \<not> is_valid_eori_number (Some (client_id acme_request)) True
   \<and> outcome (validate_client_assertion
        (example_collaborators (Inr example_headers) (Inr acme_payload)) acme_request)
      = Inr acme_payload
   \<and> validate_client_assertion
        (example_collaborators (Inr example_headers) (Inr acme_payload)) acme_request
      = validate_client_assertion
        (example_collaborators (Inr example_headers) (Inr acme_payload))
        (acme_request\<lparr>strict_eori := Some False\<rparr>)
   \<and> outcome (validate_client_assertion
        (example_collaborators (Inr example_headers) (Inr acme_payload))
        (acme_request\<lparr>strict_eori := Some True\<rparr>))
      = Inl (Rejected IShareInvalidClientId)"
proof -
  let ?ext = "example_collaborators (Inr example_headers) (Inr acme_payload)"
  have n: "strict_eori acme_request = None"
    by (simp add: acme_request_def)
  have p: "passes_steps_1_8 ?ext acme_request example_headers (PList [PStr ''MIIB'']) [0]
      acme_payload"
    by (simp add: passes_steps_1_8_def passes_steps_1_7_def passes_steps_1_6_def
          passes_steps_1_3_def has_entries_def example_collaborators_def example_request_def
          acme_request_def example_headers_def ASSERTION_TYPE_def)
  have c: "client_id acme_request \<noteq> []"
    by (simp add: acme_request_def)
  have cid: "client_id acme_request = ''acme''"
    by (simp add: acme_request_def)
  have v: "\<not> is_valid_eori_number (Some (client_id acme_request)) True"
    unfolding cid by code_simp
  have s: "acme_payload ''sub'' = Some (PStr (client_id acme_request))"
      "acme_payload ''iss'' = Some (PStr (client_id acme_request))"
      "truthy (py_get acme_payload ''jti'' PNone)"
      "py_sub (py_get acme_payload ''exp'' (PInt 0)) (py_get acme_payload ''iat'' (PInt 0))
         = Inr (PInt 30)"
    by (simp_all add: acme_payload_def cid example_payload_def py_get_def py_sub_def)
  note t = strict_eori_defaults_to_False [OF n, of ?ext example_headers "PList [PStr ''MIIB'']"
      "[0]" acme_payload]
  from t p c s have acc: "outcome (validate_client_assertion ?ext acme_request) = Inr acme_payload"
    by blast
  from t have eq: "validate_client_assertion ?ext acme_request
      = validate_client_assertion ?ext (acme_request\<lparr>strict_eori := Some False\<rparr>)"
    by blast
  have p': "passes_steps_1_8 ?ext (acme_request\<lparr>strict_eori := Some True\<rparr>) example_headers
      (PList [PStr ''MIIB'']) [0] acme_payload"
    using p
    by (simp add: passes_steps_1_8_def passes_steps_1_7_def passes_steps_1_6_def
          passes_steps_1_3_def)
  have rej: "outcome (validate_client_assertion ?ext (acme_request\<lparr>strict_eori := Some True\<rparr>))
      = Inl (Rejected IShareInvalidClientId)"
    unfolding run_after_step_8 [OF p'] using v by simp
  from n p c v acc eq rej show ?thesis
    by blast
qed

text \<open>
  C10. In the lifetime check of step 12 a missing \<open>exp\<close> or \<open>iat\<close> claim counts as 0:
  for a request that passes steps 1 to 11, a payload with \<open>exp = 30\<close> and no \<open>iat\<close>
  is returned, a payload with neither claim is rejected with
  \<open>IShareTokenExpirationInvalid\<close>, and with one of the two claims missing the payload
  is returned exactly when the other one makes the difference 30.
\<close>

theorem missing_exp_or_iat_counts_as_zero:
  assumes "passes_steps_1_11 ext rq headers x5c certs payload"
  shows "(payload ''exp'' = Some (PInt 30) \<and> payload ''iat'' = None
            \<longrightarrow> outcome (validate_client_assertion ext rq) = Inr payload)
       \<and> (payload ''exp'' = None \<and> payload ''iat'' = None
            \<longrightarrow> outcome (validate_client_assertion ext rq)
                 = Inl (Rejected IShareTokenExpirationInvalid))
       \<and> (payload ''exp'' = Some (PInt e) \<and> payload ''iat'' = None
            \<longrightarrow> (outcome (validate_client_assertion ext rq) = Inr payload \<longleftrightarrow> e - 0 = 30))
       \<and> (payload ''exp'' = None \<and> payload ''iat'' = Some (PInt i)
            \<longrightarrow> (outcome (validate_client_assertion ext rq) = Inr payload \<longleftrightarrow> 0 - i = 30))"
proof -
  note run = run_after_step_11 [OF assms]
  show ?thesis
    by (simp add: run py_sub_def py_get_def py_ne_int_def)
qed

theorem missing_exp_or_iat_counts_as_zero_witness:
  "passes_steps_1_11
     (example_collaborators (Inr example_headers)
        (Inr (example_payload(''exp'' \<mapsto> PInt 30, ''iat'' := None))))
     example_request example_headers (PList [PStr ''MIIB'']) [0]
     (example_payload(''exp'' \<mapsto> PInt 30, ''iat'' := None))
   \<and> outcome (validate_client_assertion
        (example_collaborators (Inr example_headers)
           (Inr (example_payload(''exp'' \<mapsto> PInt 30, ''iat'' := None))))
        example_request)
      = Inr (example_payload(''exp'' \<mapsto> PInt 30, ''iat'' := None))
   \<and> outcome (validate_client_assertion
        (example_collaborators (Inr example_headers)
           (Inr (example_payload(''exp'' := None, ''iat'' := None))))
        example_request)
      = Inl (Rejected IShareTokenExpirationInvalid)"
proof -
  let ?p = "example_payload(''exp'' \<mapsto> PInt 30, ''iat'' := None)"
  let ?q = "example_payload(''exp'' := None, ''iat'' := None)"
  have p: "passes_steps_1_11 (example_collaborators (Inr example_headers) (Inr ?p))
     example_request example_headers (PList [PStr ''MIIB'']) [0] ?p"
    by (rule example_passes_steps_1_11) (simp_all add: example_payload_def)
  have q: "passes_steps_1_11 (example_collaborators (Inr example_headers) (Inr ?q))
     example_request example_headers (PList [PStr ''MIIB'']) [0] ?q"
    by (rule example_passes_steps_1_11) (simp_all add: example_payload_def)
  from missing_exp_or_iat_counts_as_zero [OF p] missing_exp_or_iat_counts_as_zero [OF q] p
  show ?thesis by simp
qed







section \<open>Where the code departs from its specification\<close>

text \<open>
  C1. The dots of the pattern \<^verbatim>\<open>EU.EORI.[A-Z]{2}[0-9]{1,15}\<close> are not escaped, so each
  matches any character but the newline: with \<open>strict\<close> true the identifier
  \<^verbatim>\<open>EUxEORIyNL123456789\<close>, which does not start with the literal \<^verbatim>\<open>EU.EORI.\<close>, is
  accepted.
\<close>

theorem strict_pattern_accepts_other_separators:
  "is_valid_eori_number (Some ''EUxEORIyNL123456789'') True"
  by code_simp

text \<open>
  C3. A header that passes the algorithm and type checks and has no \<open>x5c\<close> entry
  makes the lookup \<^verbatim>\<open>headers["x5c"]\<close> raise \<open>KeyError\<close>; the run does not reach the
  test that raises \<open>IShareInvalidCertificate\<close>.
\<close>

theorem missing_x5c_raises_KeyError:
  "outcome (validate_client_assertion
     (example_collaborators (Inr (example_headers(''x5c'' := None))) (Inr example_payload))
     example_request)
   = Inl (Unclassified (KeyError ''x5c''))"
  by (simp add: validate_client_assertion_def outcome_def example_collaborators_def
      example_request_def example_headers_def ASSERTION_TYPE_def py_getitem_def py_ne_str_def
      propagate_def)

section \<open>Further properties of the code\<close>

subsection \<open>The strings accepted in strict mode\<close>

lemma rmatch_upper:
  "rmatch (CharRange CHR ''A'' CHR ''Z'') s = (case s of [] \<Rightarrow> [] | x # xs \<Rightarrow> if upper x then [xs] else [])"
  by (simp add: upper_def split: list.splits)

lemma rmatch_digit:
  "rmatch (CharRange CHR ''0'' CHR ''9'') s = (case s of [] \<Rightarrow> [] | x # xs \<Rightarrow> if digit x then [xs] else [])"
  by (simp add: digit_def split: list.splits)

lemma funpow_concat_Nil:
  fixes f :: "'a \<Rightarrow> 'a list"
  shows "((\<lambda>ss. concat (map f ss)) ^^ k) [] = []"
proof (induction k)
  case 0
  show ?case by simp
next
  case (Suc k)
  have "((\<lambda>ss. concat (map f ss)) ^^ Suc k) [] = ((\<lambda>ss. concat (map f ss)) ^^ k) []"
    by (simp only: funpow_Suc_right comp_apply) simp
  with Suc show ?case by simp
qed

lemma funpow_one_char:
  assumes "\<And>s. rmatch r s = (case s of [] \<Rightarrow> [] | x # xs \<Rightarrow> if P x then [xs] else [])"
  shows "((\<lambda>ss. concat (map (rmatch r) ss)) ^^ k) [s]
    = (if k \<le> length s \<and> (\<forall>c\<in>set (take k s). P c) then [drop k s] else [])"
proof (induction k arbitrary: s)
  case 0
  then show ?case by simp
next
  case (Suc k)
  have step: "((\<lambda>ss. concat (map (rmatch r) ss)) ^^ Suc k) [s]
      = ((\<lambda>ss. concat (map (rmatch r) ss)) ^^ k) (rmatch r s)"
    by (simp only: funpow_Suc_right comp_apply) simp
  show ?case
  proof (cases s)
    case Nil
    then have "rmatch r s = []"
      by (simp add: assms)
    with Nil show ?thesis
      unfolding step by (simp add: funpow_concat_Nil)
  next
    case (Cons x xs)
    show ?thesis
    proof (cases "P x")
      case True
      with Cons have "rmatch r s = [xs]"
        by (simp add: assms)
      with Cons True show ?thesis
        unfolding step by (simp add: Suc.IH)
    next
      case False
      with Cons have "rmatch r s = []"
        by (simp add: assms)
      with Cons False show ?thesis
        unfolding step by (simp add: funpow_concat_Nil)
    qed
  qed
qed

lemma rmatch_Repeat_one_char:
  assumes "\<And>s. rmatch r s = (case s of [] \<Rightarrow> [] | x # xs \<Rightarrow> if P x then [xs] else [])"
  shows "set (rmatch (Repeat r m n) s)
    = {drop k s | k. m \<le> k \<and> k \<le> n \<and> k \<le> length s \<and> (\<forall>c\<in>set (take k s). P c)}"
  by (auto simp add: funpow_one_char [OF assms] split: if_splits)

lemma fullmatch_Cat_char:
  assumes "\<And>s. rmatch r1 s = (case s of [] \<Rightarrow> [] | x # xs \<Rightarrow> if P x then [xs] else [])"
  shows "[] \<in> set (rmatch (Cat r1 r2) s) \<longleftrightarrow> (\<exists>x xs. s = x # xs \<and> P x \<and> [] \<in> set (rmatch r2 xs))"
  by (cases s) (simp_all add: assms)

lemma rmatch_Lit: "rmatch (Lit c) s = (case s of [] \<Rightarrow> [] | x # xs \<Rightarrow> if x = c then [xs] else [])"
  by simp

lemma rmatch_AnyChar:
  "rmatch AnyChar s = (case s of [] \<Rightarrow> [] | x # xs \<Rightarrow> if x \<noteq> CHR 0x0A then [xs] else [])"
  by (simp split: list.splits)

lemma fullmatch_country_digits:
  "[] \<in> set (rmatch (Cat (Repeat (CharRange CHR ''A'' CHR ''Z'') 2 2)
                        (Repeat (CharRange CHR ''0'' CHR ''9'') 1 15)) t)
   \<longleftrightarrow> (\<exists>c d ds. t = c # d # ds \<and> upper c \<and> upper d \<and> ds \<noteq> [] \<and> length ds \<le> 15
          \<and> (\<forall>x\<in>set ds. digit x))"
  (is "?l \<longleftrightarrow> ?r")
proof
  assume ?l
  then obtain u where u: "u \<in> set (rmatch (Repeat (CharRange CHR ''A'' CHR ''Z'') 2 2) t)"
    and e: "[] \<in> set (rmatch (Repeat (CharRange CHR ''0'' CHR ''9'') 1 15) u)"
    by auto
  from u have t: "2 \<le> length t" "\<forall>c\<in>set (take 2 t). upper c" "u = drop 2 t"
    unfolding rmatch_Repeat_one_char [of _ upper, OF rmatch_upper] by auto
  from e obtain k where k: "drop k u = []" "1 \<le> k" "k \<le> 15" "k \<le> length u"
      "\<forall>c\<in>set (take k u). digit c"
    unfolding rmatch_Repeat_one_char [of _ digit, OF rmatch_digit] by auto
  from t(1) obtain c d ds where s: "t = c # d # ds"
    by (cases t; cases "tl t") auto
  with t k show ?r
    by auto
next
  assume ?r
  then obtain c d ds where s: "t = c # d # ds" "upper c" "upper d" "ds \<noteq> []" "length ds \<le> 15"
      "\<forall>x\<in>set ds. digit x"
    by blast
  have "ds \<in> set (rmatch (Repeat (CharRange CHR ''A'' CHR ''Z'') 2 2) t)"
    unfolding rmatch_Repeat_one_char [of _ upper, OF rmatch_upper]
    using s by (auto intro!: exI [of _ 2])
  moreover have "[] \<in> set (rmatch (Repeat (CharRange CHR ''0'' CHR ''9'') 1 15) ds)"
    unfolding rmatch_Repeat_one_char [of _ digit, OF rmatch_digit]
    using s by (auto intro!: exI [of _ "length ds"] simp: Suc_le_eq)
  ultimately show ?l
    by auto
qed

text \<open>
  The strict format, in full: a string is accepted in strict mode exactly when it is
  \<open>EU\<close>, any one character but a line feed, \<open>EORI\<close>, any one character but a line feed,
  two upper-case ASCII letters and 1 to 15 ASCII digits, and nothing more. The two
  separator positions are the unescaped dots of the pattern.
\<close>

theorem strict_format_characterised:
  "is_valid_eori_number (Some s) True \<longleftrightarrow>
     (\<exists>a b c d ds. s = ''EU'' @ [a] @ ''EORI'' @ [b, c, d] @ ds
        \<and> a \<noteq> CHR 0x0A \<and> b \<noteq> CHR 0x0A \<and> upper c \<and> upper d
        \<and> ds \<noteq> [] \<and> length ds \<le> 15 \<and> (\<forall>x\<in>set ds. digit x))"
proof -
  have "re_fullmatch pattern s \<longleftrightarrow>
     (\<exists>a b c d ds. s = ''EU'' @ [a] @ ''EORI'' @ [b, c, d] @ ds
        \<and> a \<noteq> CHR 0x0A \<and> b \<noteq> CHR 0x0A \<and> upper c \<and> upper d
        \<and> ds \<noteq> [] \<and> length ds \<le> 15 \<and> (\<forall>x\<in>set ds. digit x))"
    unfolding re_fullmatch_def pattern_def
      fullmatch_Cat_char [of _ "\<lambda>x. x = c" for c, OF rmatch_Lit]
      fullmatch_Cat_char [of _ "\<lambda>x. x \<noteq> CHR 0x0A", OF rmatch_AnyChar]
      fullmatch_country_digits
    by auto
  then show ?thesis
    by (auto simp add: is_valid_eori_number_def)
qed


theorem strict_format_characterised_witness:
  "is_valid_eori_number (Some ''EU.EORI.NL123456789'') True
   \<and> (\<exists>a b c d ds. ''EU.EORI.NL123456789'' = ''EU'' @ [a] @ ''EORI'' @ [b, c, d] @ ds
        \<and> a \<noteq> CHR 0x0A \<and> b \<noteq> CHR 0x0A \<and> upper c \<and> upper d
        \<and> ds \<noteq> [] \<and> length ds \<le> 15 \<and> (\<forall>x\<in>set ds. digit x))"
proof -
  have v: "is_valid_eori_number (Some ''EU.EORI.NL123456789'') True"
    by code_simp
  with strict_format_characterised [of "''EU.EORI.NL123456789''"] show ?thesis
    by blast
qed

text \<open>
  The three examples of the strict format: \<open>EU.EORI.NL123456789\<close> is accepted, lower-case
  country letters and sixteen digits are rejected.
\<close>

theorem strict_format_examples:
  "is_valid_eori_number (Some ''EU.EORI.NL123456789'') True
   \<and> \<not> is_valid_eori_number (Some ''EU.EORI.nl123456789'') True
   \<and> \<not> is_valid_eori_number (Some ''EU.EORI.NL1234567890123456'') True"
  by code_simp

subsection \<open>Header checks\<close>

text \<open>
  When the header carries the key \<open>x5c\<close> and its value is \<open>None\<close> or has no entries, the
  validator raises \<open>IShareInvalidCertificate\<close>.
\<close>

theorem x5c_null_or_empty_rejected:
  assumes "passes_steps_1_6 ext rq headers"
    and "headers ''x5c'' = Some x5c"
    and "x5c = PNone \<or> py_len x5c = Inr 0"
  shows "outcome (validate_client_assertion ext rq) = Inl (Rejected IShareInvalidCertificate)"
proof -
  from assms(1) have f: "grant_type rq = ''client_credentials''" "scope rq = ''iSHARE''"
      "client_assertion_type rq = ASSERTION_TYPE"
      "get_unverified_header ext (client_assertion rq) = Inr headers"
      "py_getitem headers ''alg'' = Inr (PStr ''RS256'')"
      "py_getitem headers ''typ'' = Inr (PStr ''JWT'')"
    by (simp_all add: passes_steps_1_6_def passes_steps_1_3_def py_getitem_def)
  have x: "py_getitem headers ''x5c'' = Inr x5c"
    by (simp add: py_getitem_def assms(2))
  from assms(3) show ?thesis
  proof
    assume "x5c = PNone"
    then show ?thesis
      by (simp add: validate_client_assertion_def outcome_def f x py_ne_str_def
          raise_ishare_def Let_def)
  next
    assume l: "py_len x5c = Inr 0"
    show ?thesis
      by (simp add: validate_client_assertion_def outcome_def f x l py_ne_str_def
          raise_ishare_def Let_def)
  qed
qed

theorem x5c_null_or_empty_rejected_witness:
  "passes_steps_1_6
     (example_collaborators (Inr (example_headers(''x5c'' \<mapsto> PList []))) (Inr example_payload))
     example_request (example_headers(''x5c'' \<mapsto> PList []))
   \<and> outcome (validate_client_assertion
        (example_collaborators (Inr (example_headers(''x5c'' \<mapsto> PList []))) (Inr example_payload))
        example_request)
      = Inl (Rejected IShareInvalidCertificate)
   \<and> outcome (validate_client_assertion
        (example_collaborators (Inr (example_headers(''x5c'' \<mapsto> PNone))) (Inr example_payload))
        example_request)
      = Inl (Rejected IShareInvalidCertificate)"
proof -
  have p: "passes_steps_1_6 (example_collaborators (Inr (example_headers(''x5c'' \<mapsto> v))) d)
      example_request (example_headers(''x5c'' \<mapsto> v))" for v d
    by (simp add: passes_steps_1_6_def passes_steps_1_3_def example_collaborators_def
        example_request_def example_headers_def ASSERTION_TYPE_def)
  have x: "(example_headers(''x5c'' \<mapsto> v)) ''x5c'' = Some v" for v
    by simp
  have e: "PList [] = PNone \<or> py_len (PList []) = Inr 0"
    and n: "PNone = PNone \<or> py_len PNone = Inr 0"
    by simp_all
  from x5c_null_or_empty_rejected [OF p x e] x5c_null_or_empty_rejected [OF p x n]
    p [of "PList []" "Inr example_payload"]
  show ?thesis by simp
qed

text \<open>
  A header whose \<open>alg\<close> is not \<open>RS256\<close> is rejected with
  \<open>IShareInvalidTokenAlgorithm\<close>, and the only external call made is the parsing of the
  header: neither the certificate chain nor the signature is looked at.
\<close>

theorem wrong_algorithm_rejected_before_verification:
  assumes "passes_steps_1_3 rq"
    and "get_unverified_header ext (client_assertion rq) = Inr headers"
    and "headers ''alg'' = Some alg"
    and "alg \<noteq> PStr ''RS256''"
  shows "outcome (validate_client_assertion ext rq) = Inl (Rejected IShareInvalidTokenAlgorithm)
       \<and> calls_of (validate_client_assertion ext rq)
           = [Call_get_unverified_header (client_assertion rq)]"
  using assms
  by (simp add: validate_client_assertion_def outcome_def calls_of_def passes_steps_1_3_def
      py_getitem_def py_ne_str_def raise_ishare_def)

theorem wrong_algorithm_rejected_before_verification_witness:
  "passes_steps_1_3 example_request
   \<and> outcome (validate_client_assertion
        (example_collaborators (Inr (example_headers(''alg'' \<mapsto> PStr ''HS256'')))
           (Inr example_payload))
        example_request)
      = Inl (Rejected IShareInvalidTokenAlgorithm)
   \<and> calls_of (validate_client_assertion
        (example_collaborators (Inr (example_headers(''alg'' \<mapsto> PStr ''HS256'')))
           (Inr example_payload))
        example_request)
      = [Call_get_unverified_header (client_assertion example_request)]"
proof -
  have p: "passes_steps_1_3 example_request"
    by (simp add: passes_steps_1_3_def example_request_def ASSERTION_TYPE_def)
  have g: "get_unverified_header
      (example_collaborators (Inr (example_headers(''alg'' \<mapsto> PStr ''HS256''))) (Inr example_payload))
      (client_assertion example_request) = Inr (example_headers(''alg'' \<mapsto> PStr ''HS256''))"
    by (simp add: example_collaborators_def)
  have a: "(example_headers(''alg'' \<mapsto> PStr ''HS256'')) ''alg'' = Some (PStr ''HS256'')"
    by simp
  have d: "PStr ''HS256'' \<noteq> PStr ''RS256''"
    by simp
  from wrong_algorithm_rejected_before_verification [OF p g a d] p show ?thesis
    by simp
qed

subsection \<open>A complete run\<close>

text \<open>
  On the example request, header and payload every step passes: the three external calls
  are made in the order of the source, and the decoded payload is returned unchanged.
\<close>

theorem end_to_end_scenario:
  "validate_client_assertion
     (example_collaborators (Inr example_headers) (Inr example_payload)) example_request
   = ([Call_get_unverified_header (client_assertion example_request),
       Call_x5c_b64_to_certificate (PList [PStr ''MIIB'']),
       Call_decode_jwt (client_assertion example_request) [0] (audience example_request)],
      Inr example_payload)"
proof -
  have s: "py_sub (py_get example_payload ''exp'' (PInt 0)) (py_get example_payload ''iat'' (PInt 0))
      = Inr (PInt 30)"
    by (simp add: py_sub_def py_get_def example_payload_def)
  have c: "py_get example_payload ''sub'' PNone = PStr ''EU.EORI.NL000000000000001''"
      "py_get example_payload ''iss'' PNone = PStr ''EU.EORI.NL000000000000001''"
      "py_get example_payload ''jti'' PNone = PStr ''abc123''"
    by (simp_all add: py_get_def example_payload_def)
  show ?thesis
    using example_id_strictly_valid
    by (simp add: validate_client_assertion_def example_collaborators_def example_request_def
        example_headers_def ASSERTION_TYPE_def py_getitem_def py_ne_str_def py_ne_int_PInt s c
        Let_def)
qed

end
